theory Spec2Isabelle
  imports Main "HOL-Library.AList"
begin

section \<open>Python strings\<close>

text \<open>
  A Python \<open>str\<close> is modelled as a \<open>string\<close>; a character stands for the code point
  of the same number, so the texts covered are those over the code points below 256.
  The library methods the plugin calls on strings are written out for that range.
\<close>

definition isspace :: "char \<Rightarrow> bool" where
  \<comment> \<open>\<open>str.isspace\<close> on one character: TAB, LF, VT, FF, CR, FS, GS, RS, US, space,
      NEL and the no-break space.\<close>
  "isspace c = (c \<in> set [CHR 0x09, CHR 0x0A, CHR 0x0B, CHR 0x0C, CHR 0x0D,
                           CHR 0x1C, CHR 0x1D, CHR 0x1E, CHR 0x1F, CHR 0x20,
                           CHR 0x85, CHR 0xA0])"

definition strip :: "string \<Rightarrow> string" where
  \<comment> \<open>\<open>s.strip()\<close>: leading and trailing whitespace removed.\<close>
  "strip s = rev (dropWhile isspace (rev (dropWhile isspace s)))"

definition is_linebreak :: "char \<Rightarrow> bool" where
  \<comment> \<open>The line boundaries of \<open>str.splitlines\<close>: LF, VT, FF, CR, FS, GS, RS, NEL
      (CR LF counts once, see \<open>splitlines_from\<close>).\<close>
  "is_linebreak c = (c \<in> set [CHR 0x0A, CHR 0x0B, CHR 0x0C, CHR 0x0D,
                               CHR 0x1C, CHR 0x1D, CHR 0x1E, CHR 0x85])"

fun splitlines_from :: "bool \<Rightarrow> string \<Rightarrow> string \<Rightarrow> string list" where
  \<comment> \<open>The scan of \<open>str.splitlines\<close>: the flag says that the character before was a
      CR that ended a line, the second argument is the line read so far.\<close>
  "splitlines_from cr cur [] = (if cur = [] then [] else [cur])"
| "splitlines_from cr cur (c # cs) =
     (if cr \<and> c = CHR 0x0A then splitlines_from False cur cs
      else if is_linebreak c then cur # splitlines_from (c = CHR 0x0D) [] cs
      else splitlines_from False (cur @ [c]) cs)"

definition splitlines :: "string \<Rightarrow> string list" where
  "splitlines s = splitlines_from False [] s"

definition partition_at :: "char \<Rightarrow> string \<Rightarrow> string \<times> string \<times> string" where
  \<comment> \<open>\<open>s.partition(sep)\<close> for a one-character separator: the text before the first
      occurrence, the separator (empty when there is none), the text after it.\<close>
  "partition_at sep s =
     (case dropWhile (\<lambda>c. c \<noteq> sep) s of
        [] \<Rightarrow> (s, [], [])
      | _ # right \<Rightarrow> (takeWhile (\<lambda>c. c \<noteq> sep) s, [sep], right))"

fun startswith :: "string \<Rightarrow> string \<Rightarrow> bool" where
  \<comment> \<open>\<open>s.startswith(p)\<close>.\<close>
  "startswith s [] = True"
| "startswith [] (p # ps) = False"
| "startswith (c # cs) (p # ps) = (c = p \<and> startswith cs ps)"

fun contains :: "string \<Rightarrow> string \<Rightarrow> bool" where
  \<comment> \<open>\<open>contains text kw\<close> is Python's \<open>kw in text\<close>: \<open>kw\<close> occurs as a substring.\<close>
  "contains [] kw = (kw = [])"
| "contains (c # cs) kw = (startswith (c # cs) kw \<or> contains cs kw)"

definition upper_letters :: string where
  \<comment> \<open>The characters below 256 that \<open>str.lower\<close> changes: A-Z and the capital
      letters 0xC0-0xDE (but the multiplication sign 0xD7).\<close>
  "upper_letters = ''ABCDEFGHIJKLMNOPQRSTUVWXYZ'' @
     [CHR 0xC0, CHR 0xC1, CHR 0xC2, CHR 0xC3, CHR 0xC4, CHR 0xC5, CHR 0xC6, CHR 0xC7,
      CHR 0xC8, CHR 0xC9, CHR 0xCA, CHR 0xCB, CHR 0xCC, CHR 0xCD, CHR 0xCE, CHR 0xCF,
      CHR 0xD0, CHR 0xD1, CHR 0xD2, CHR 0xD3, CHR 0xD4, CHR 0xD5, CHR 0xD6,
      CHR 0xD8, CHR 0xD9, CHR 0xDA, CHR 0xDB, CHR 0xDC, CHR 0xDD, CHR 0xDE]"

definition lower_letters :: string where
  \<comment> \<open>Their lower-case forms, 32 code points up each.\<close>
  "lower_letters = ''abcdefghijklmnopqrstuvwxyz'' @
     [CHR 0xE0, CHR 0xE1, CHR 0xE2, CHR 0xE3, CHR 0xE4, CHR 0xE5, CHR 0xE6, CHR 0xE7,
      CHR 0xE8, CHR 0xE9, CHR 0xEA, CHR 0xEB, CHR 0xEC, CHR 0xED, CHR 0xEE, CHR 0xEF,
      CHR 0xF0, CHR 0xF1, CHR 0xF2, CHR 0xF3, CHR 0xF4, CHR 0xF5, CHR 0xF6,
      CHR 0xF8, CHR 0xF9, CHR 0xFA, CHR 0xFB, CHR 0xFC, CHR 0xFD, CHR 0xFE]"

definition lower_char :: "char \<Rightarrow> char" where
  \<comment> \<open>\<open>str.lower\<close> on one character.\<close>
  "lower_char c =
     (case map_of (zip upper_letters lower_letters) c of Some d \<Rightarrow> d | None \<Rightarrow> c)"

definition lower :: "string \<Rightarrow> string" where
  "lower s = map lower_char s"

section \<open>Keyword rules and their configuration text\<close>

record KeywordMapping =
  keyword :: string
  persona_id :: string
  case_sensitive :: bool
  reply_template :: string

definition matches :: "KeywordMapping \<Rightarrow> string \<Rightarrow> bool" where
  \<comment> \<open>\<open>KeywordMapping.matches\<close>.\<close>
  "matches m text =
     (if \<not> case_sensitive m then contains (lower text) (lower (keyword m))
      else contains text (keyword m))"

text \<open>
  The exceptions of the plugin. Each \<open>raise ValueError(...)\<close> of the source is one
  constructor (with the text it quotes); the others are the exceptions that the
  collaborators and the Python runtime raise into the plugin.
\<close>

datatype error =
    Invalid_mapping_format string
  | Invalid_persona_id string
  | Invalid_keyword string
  | Empty_content
  | Json_not_object
  | Missing_system_prompt
  | Odd_begin_dialogs
  | Unsupported_file_type
  | No_content_found
  | Persona_exists string
  | Persona_not_found string
  | Type_error
  | Format_error
  | Timeout_error
  | Other_exception string

datatype log_record =
    Warn_match_mode_dropped string
  | Error_mapping_rejected error
  | Warn_mappings_not_text string

definition parse_mapping_entry :: "string \<Rightarrow> log_record list \<times> (error + KeywordMapping)" where
  \<comment> \<open>\<open>_parse_mapping_entry\<close>: the warnings it logs, and the rule or the ValueError.\<close>
  "parse_mapping_entry entry =
     (case partition_at (CHR '':'') entry of (left, sep, right) \<Rightarrow>
        if sep = [] then ([], Inl (Invalid_mapping_format entry))
        else let pid = strip right in
          if pid = [] then ([], Inl (Invalid_persona_id entry))
          else let keyword_part = strip left;
                   piped = (CHR ''|'' \<in> set keyword_part);
                   kw = (if piped
                         then (case partition_at (CHR ''|'') keyword_part of
                                 (_, _, keyword_raw) \<Rightarrow> strip keyword_raw)
                         else keyword_part);
                   logs = (if piped then [Warn_match_mode_dropped entry] else [])
               in if kw = [] then (logs, Inl (Invalid_keyword entry))
                  else (logs, Inr \<lparr>keyword = kw, persona_id = pid,
                                    case_sensitive = False, reply_template = []\<rparr>))"

fun load_entries :: "string list \<Rightarrow> KeywordMapping list \<times> log_record list" where
  \<comment> \<open>The loop of \<open>_load_config\<close> over the lines: the rules appended to \<open>loaded\<close>,
      and what was logged.\<close>
  "load_entries [] = ([], [])"
| "load_entries (raw_entry # rest) =
     (let entry = strip raw_entry;
          (loaded, logs) = load_entries rest
      in if entry = [] \<or> startswith entry ''#'' then (loaded, logs)
         else (case parse_mapping_entry entry of
                 (ws, Inr m) \<Rightarrow> (m # loaded, ws @ logs)
               | (ws, Inl exc) \<Rightarrow> (loaded, ws @ Error_mapping_rejected exc # logs)))"

datatype config_value = Conf_None | Conf_Str string | Conf_Other string

definition load_keyword_mappings :: "config_value \<Rightarrow> KeywordMapping list \<times> log_record list" where
  \<comment> \<open>The part of \<open>_load_config\<close> that sets \<open>self.keyword_mappings\<close> from the value
      of the key \<open>keyword_mappings\<close>; \<open>Conf_Other s\<close> is a value that is not text,
      with \<open>s\<close> what \<open>str\<close> makes of it.\<close>
  "load_keyword_mappings mappings_raw =
     (let (pre, entries) =
            (case mappings_raw of
               Conf_None \<Rightarrow> ([], [])
             | Conf_Str s \<Rightarrow> ([], splitlines s)
             | Conf_Other s \<Rightarrow> ([Warn_mappings_not_text s], splitlines s));
          (loaded, logs) = load_entries entries
      in (filter (\<lambda>m. keyword m \<noteq> [] \<and> persona_id m \<noteq> []) loaded, pre @ logs))"

section \<open>Persona content: the JSON values and the payload parser\<close>

text \<open>
  The values \<open>json.loads\<close> returns. A float is named by the text \<open>repr\<close> gives of
  it (\<open>1.5\<close>, \<open>1e+22\<close>, \<open>nan\<close>, \<open>inf\<close>), which determines it; the two zeros are
  \<open>0.0\<close> and \<open>-0.0\<close>. An object is the list of its members in insertion order.
\<close>

datatype json =
    JNull
  | JBool bool
  | JInt int
  | JFloat string
  | JStr string
  | JArr "json list"
  | JObj "(string \<times> json) list"

fun truthy :: "json \<Rightarrow> bool" where
  \<comment> \<open>Python's truth value of a decoded value (\<open>not prompt\<close>, \<open>begin_dialogs and ...\<close>).\<close>
  "truthy JNull = False"
| "truthy (JBool b) = b"
| "truthy (JInt i) = (i \<noteq> 0)"
| "truthy (JFloat r) = (r \<noteq> ''0.0'' \<and> r \<noteq> ''-0.0'')"
| "truthy (JStr s) = (s \<noteq> [])"
| "truthy (JArr xs) = (xs \<noteq> [])"
| "truthy (JObj members) = (members \<noteq> [])"

fun py_len :: "json \<Rightarrow> nat option" where
  \<comment> \<open>\<open>len(v)\<close>; \<open>None\<close> where Python raises TypeError.\<close>
  "py_len (JStr s) = Some (length s)"
| "py_len (JArr xs) = Some (length xs)"
| "py_len (JObj members) = Some (length members)"
| "py_len v = None"

fun py_iter :: "json \<Rightarrow> json list option" where
  \<comment> \<open>The values \<open>for x in v\<close> runs through; \<open>None\<close> where Python raises TypeError.\<close>
  "py_iter (JStr s) = Some (map (\<lambda>c. JStr [c]) s)"
| "py_iter (JArr xs) = Some xs"
| "py_iter (JObj members) = Some (map (\<lambda>kv. JStr (fst kv)) members)"
| "py_iter v = None"

fun is_object :: "json \<Rightarrow> bool" where
  \<comment> \<open>\<open>isinstance(v, dict)\<close>.\<close>
  "is_object (JObj members) = True"
| "is_object v = False"

definition digit_char :: "nat \<Rightarrow> char" where
  \<comment> \<open>The digit of a number below 16.\<close>
  "digit_char n = ''0123456789abcdef'' ! (n mod 16)"

function show_nat :: "nat \<Rightarrow> string" where
  \<comment> \<open>The decimal digits of a natural number.\<close>
  "show_nat n = (if n < 10 then [digit_char n] else show_nat (n div 10) @ [digit_char (n mod 10)])"
  by pat_completeness auto
termination
  by (relation "measure id") auto

declare show_nat.simps [simp del]

definition show_int :: "int \<Rightarrow> string" where
  "show_int i = (if i < 0 then CHR ''-'' # show_nat (nat (- i)) else show_nat (nat i))"

definition repr_char :: "char \<Rightarrow> char \<Rightarrow> string" where
  \<comment> \<open>One character inside \<open>repr\<close> of a string quoted with \<open>q\<close>: backslash, the quote,
      TAB, LF and CR are escaped, a character that is not printable is written \<open>\xNN\<close>.\<close>
  "repr_char q c =
     (let n = (of_char c :: nat) in
      if c = CHR 0x5C then [CHR 0x5C, CHR 0x5C]
      else if c = q then [CHR 0x5C, q]
      else if c = CHR 0x09 then [CHR 0x5C, CHR ''t'']
      else if c = CHR 0x0A then [CHR 0x5C, CHR ''n'']
      else if c = CHR 0x0D then [CHR 0x5C, CHR ''r'']
      else if n < 32 \<or> (127 \<le> n \<and> n \<le> 160) \<or> n = 173
        then [CHR 0x5C, CHR ''x'', digit_char (n div 16), digit_char (n mod 16)]
      else [c])"

definition repr_str :: "string \<Rightarrow> string" where
  \<comment> \<open>\<open>repr\<close> of a string: in single quotes, unless it holds a single quote and no
      double quote.\<close>
  "repr_str s =
     (let q = (if CHR 0x27 \<in> set s \<and> CHR 0x22 \<notin> set s then CHR 0x22 else CHR 0x27)
      in [q] @ concat (map (repr_char q) s) @ [q])"

fun join :: "string \<Rightarrow> string list \<Rightarrow> string" where
  \<comment> \<open>\<open>sep.join(xs)\<close>.\<close>
  "join sep [] = []"
| "join sep [x] = x"
| "join sep (x # y # ys) = x @ sep @ join sep (y # ys)"

fun py_repr :: "json \<Rightarrow> string" where
  \<comment> \<open>\<open>repr(v)\<close> of a decoded value.\<close>
  "py_repr JNull = ''None''"
| "py_repr (JBool b) = (if b then ''True'' else ''False'')"
| "py_repr (JInt i) = show_int i"
| "py_repr (JFloat r) = r"
| "py_repr (JStr s) = repr_str s"
| "py_repr (JArr xs) = ''['' @ join '', '' (map py_repr xs) @ '']''"
| "py_repr (JObj members) =
     ''{'' @ join '', '' (map (\<lambda>kv. repr_str (fst kv) @ '': '' @ py_repr (snd kv)) members) @ ''}''"

definition py_str :: "json \<Rightarrow> string" where
  \<comment> \<open>\<open>str(v)\<close>: a string is itself, any other value its \<open>repr\<close>.\<close>
  "py_str v = (case v of JStr s \<Rightarrow> s | _ \<Rightarrow> py_repr v)"


text \<open>
  What a call of \<open>json.loads\<close> does: it returns a value, raises JSONDecodeError, or raises
  another exception (which \<open>_parse_persona_payload\<close> does not catch).
\<close>

datatype decoded = Decoded json | JSONDecodeError | Decoder_raised error

definition dict_get :: "(string \<times> json) list \<Rightarrow> string \<Rightarrow> json \<Rightarrow> json" where
  \<comment> \<open>\<open>payload.get(k, d)\<close>.\<close>
  "dict_get members k d = (case map_of members k of None \<Rightarrow> d | Some v \<Rightarrow> v)"

definition parse_persona_payload :: "(string \<Rightarrow> decoded) \<Rightarrow> string \<Rightarrow> error + string \<times> string list" where
  \<comment> \<open>\<open>_parse_persona_payload\<close>, with \<open>json.loads\<close> as the parameter \<open>loads\<close>.\<close>
  "parse_persona_payload loads raw =
     (let raw_text = strip raw in
      if raw_text = [] then Inl Empty_content
      else case loads raw_text of
             JSONDecodeError \<Rightarrow> Inr (raw_text, [])
           | Decoder_raised exc \<Rightarrow> Inl exc
           | Decoded payload \<Rightarrow>
               (case payload of
                  JObj members \<Rightarrow>
                    let prompt = dict_get members ''system_prompt'' JNull in
                    if \<not> truthy prompt then Inl Missing_system_prompt
                    else
                      let begin_dialogs = dict_get members ''begin_dialogs'' (JArr []);
                          converted =
                            (case py_iter begin_dialogs of
                               None \<Rightarrow> Inl Type_error
                             | Some xs \<Rightarrow> Inr (py_str prompt, map py_str xs))
                      in if truthy begin_dialogs then
                           (case py_len begin_dialogs of
                              None \<Rightarrow> Inl Type_error
                            | Some n \<Rightarrow> if n mod 2 \<noteq> 0 then Inl Odd_begin_dialogs else converted)
                         else converted
                | _ \<Rightarrow> Inl Json_not_object))"

subsection \<open>A decoder to run the parser on concrete texts\<close>

text \<open>
  \<open>json_loads\<close> decodes the JSON texts made of objects, arrays, strings (with the
  one-letter escapes), integers, \<open>true\<close>, \<open>false\<close> and \<open>null\<close>, as \<open>json.loads\<close>
  does: whitespace is space, TAB, LF and CR; a number starts with an optional minus sign
  and is \<open>0\<close> or a digit sequence without a leading zero; a control character ends a
  string with an error; a repeated key keeps its first place and takes the last value.
  A text with a fraction, an exponent, \<open>NaN\<close>, \<open>Infinity\<close> or a \<open>\u\<close> escape is
  outside this fragment and is answered with JSONDecodeError here. The theorems below
  hold for every decoder; this one serves to run the parser on concrete texts of the
  fragment.
\<close>

definition json_ws :: "char \<Rightarrow> bool" where
  "json_ws c = (c \<in> set [CHR 0x20, CHR 0x09, CHR 0x0A, CHR 0x0D])"

definition skip_ws :: "string \<Rightarrow> string" where
  "skip_ws s = dropWhile json_ws s"

definition is_digit :: "char \<Rightarrow> bool" where
  "is_digit c = (c \<in> set ''0123456789'')"

definition digit_val :: "char \<Rightarrow> nat" where
  "digit_val c = (case map_of (zip ''0123456789'' [0, 1, 2, 3, 4, 5, 6, 7, 8, 9]) c of
                    Some n \<Rightarrow> n | None \<Rightarrow> 0)"

definition nat_of_digits :: "string \<Rightarrow> nat" where
  "nat_of_digits ds = foldl (\<lambda>n c. 10 * n + digit_val c) 0 ds"

definition scan_number :: "string \<Rightarrow> (json \<times> string) option" where
  "scan_number s =
     (let neg = startswith s ''-'';
          s1 = (if neg then tl s else s);
          ds = (case s1 of [] \<Rightarrow> []
                | c # cs \<Rightarrow> if c = CHR ''0'' then [c] else takeWhile is_digit s1);
          rest = drop (length ds) s1
      in if ds = [] then None
         else Some (JInt (if neg then - int (nat_of_digits ds) else int (nat_of_digits ds)), rest))"

definition unescape :: "char \<Rightarrow> char option" where
  "unescape d =
     map_of [(CHR 0x22, CHR 0x22), (CHR 0x5C, CHR 0x5C), (CHR ''/'', CHR ''/''),
             (CHR ''b'', CHR 0x08), (CHR ''f'', CHR 0x0C), (CHR ''n'', CHR 0x0A),
             (CHR ''r'', CHR 0x0D), (CHR ''t'', CHR 0x09)] d"

fun scan_string :: "string \<Rightarrow> string \<Rightarrow> (string \<times> string) option" where
  "scan_string acc [] = None"
| "scan_string acc [c] = (if c = CHR 0x22 then Some (acc, []) else None)"
| "scan_string acc (c # d # cs) =
     (if c = CHR 0x22 then Some (acc, d # cs)
      else if c = CHR 0x5C then
        (case unescape d of None \<Rightarrow> None | Some e \<Rightarrow> scan_string (acc @ [e]) cs)
      else if (of_char c :: nat) < 32 then None
      else scan_string (acc @ [c]) (d # cs))"

lemma scan_string_shorter: "scan_string acc s = Some (k, r) \<Longrightarrow> length r < length s"
  by (induction acc s rule: scan_string.induct) (auto split: if_splits option.splits)

lemma skip_ws_le: "length (skip_ws s) \<le> length s"
  by (simp add: skip_ws_def length_dropWhile_le)

lemma skip_ws_Cons: "skip_ws s = d # ds \<Longrightarrow> length ds < length s"
  using skip_ws_le [of s] by simp

lemma skip_ws_less: "length s < n \<Longrightarrow> length (skip_ws s) < n"
  using skip_ws_le [of s] by simp

lemma skip_ws_lessD: "n < length (skip_ws s) \<Longrightarrow> n < length s"
  using skip_ws_le [of s] by simp

lemma skip_ws_less2: "2 * length s < n \<Longrightarrow> 2 * length (skip_ws s) < n"
  using skip_ws_le [of s] by simp

function (sequential) parse_value :: "string \<Rightarrow> (json \<times> string) option"
  and parse_elements :: "json list \<Rightarrow> string \<Rightarrow> (json list \<times> string) option"
  and parse_members :: "(string \<times> json) list \<Rightarrow> string \<Rightarrow> ((string \<times> json) list \<times> string) option"
where
  "parse_value [] = None"
| "parse_value (c # cs) =
     (if c = CHR 0x22 then
        (case scan_string [] cs of None \<Rightarrow> None | Some (s, rest) \<Rightarrow> Some (JStr s, rest))
      else if c = CHR ''['' then
        (case skip_ws cs of
           [] \<Rightarrow> None
         | d # ds \<Rightarrow>
             if d = CHR '']'' then Some (JArr [], ds)
             else (case parse_elements [] (d # ds) of
                     None \<Rightarrow> None | Some (xs, rest) \<Rightarrow> Some (JArr xs, rest)))
      else if c = CHR ''{'' then
        (case skip_ws cs of
           [] \<Rightarrow> None
         | d # ds \<Rightarrow>
             if d = CHR ''}'' then Some (JObj [], ds)
             else (case parse_members [] (d # ds) of
                     None \<Rightarrow> None | Some (ms, rest) \<Rightarrow> Some (JObj ms, rest)))
      else if startswith (c # cs) ''null'' then Some (JNull, drop 4 (c # cs))
      else if startswith (c # cs) ''true'' then Some (JBool True, drop 4 (c # cs))
      else if startswith (c # cs) ''false'' then Some (JBool False, drop 5 (c # cs))
      else scan_number (c # cs))"
| "parse_elements acc s =
     (case parse_value s of
        None \<Rightarrow> None
      | Some (v, rest) \<Rightarrow>
          if length rest < length s then
            (case skip_ws rest of
               [] \<Rightarrow> None
             | d # ds \<Rightarrow>
                 if d = CHR '','' then parse_elements (acc @ [v]) (skip_ws ds)
                 else if d = CHR '']'' then Some (acc @ [v], ds)
                 else None)
          else None)"
| "parse_members acc [] = None"
| "parse_members acc (q # s1) =
     (if q \<noteq> CHR 0x22 then None
      else case scan_string [] s1 of
        None \<Rightarrow> None
      | Some (k, r1) \<Rightarrow>
          (case skip_ws r1 of
             [] \<Rightarrow> None
           | colon # r2 \<Rightarrow>
               if colon \<noteq> CHR '':'' then None
               else (case parse_value (skip_ws r2) of
                  None \<Rightarrow> None
                | Some (v, rest) \<Rightarrow>
                    if length rest < length (skip_ws r2) then
                      (case skip_ws rest of
                         [] \<Rightarrow> None
                       | d # ds \<Rightarrow>
                           if d = CHR '','' then parse_members (AList.update k v acc) (skip_ws ds)
                           else if d = CHR ''}'' then Some (AList.update k v acc, ds)
                           else None)
                    else None)))"
  by pat_completeness auto
termination
  apply (relation "measure (\<lambda>x. case x of
            Inl s \<Rightarrow> 2 * length s
          | Inr (Inl (acc, s)) \<Rightarrow> 2 * length s + 1
          | Inr (Inr (acc, s)) \<Rightarrow> 2 * length s + 1)")
  apply (auto dest!: scan_string_shorter skip_ws_Cons dest: skip_ws_lessD
               intro!: skip_ws_less skip_ws_less2)
  done

declare parse_value.simps [simp del]

definition json_loads :: "string \<Rightarrow> decoded" where
  "json_loads s =
     (case parse_value (skip_ws s) of
        None \<Rightarrow> JSONDecodeError
      | Some (v, rest) \<Rightarrow> if skip_ws rest = [] then Decoded v else JSONDecodeError)"

section \<open>Events, collaborators and the plugin's state\<close>

text \<open>
  A message component as the plugin reads it: for a file, what \<open>get_file()\<close> returns
  (empty when it has no path), the suffix \<open>pathlib\<close> gives of that path, and the text
  \<open>read_text\<close> reads there; any other component.
\<close>

datatype component = File_component string string string | Other_component

text \<open>
  An inbound event: whether it is an \<open>AiocqhttpMessageEvent\<close>, what its accessors
  return, and its bot: whether the adapter has \<open>set_qq_profile\<close> and \<open>set_qq_avatar\<close>,
  and whether a call of each raises.
\<close>

record event =
  is_aiocqhttp :: bool
  platform_id :: string
  self_id :: string
  unified_msg_origin :: string
  message_str :: string
  message :: "component list"
  is_admin :: bool
  sender_id :: string
  bot_has_set_qq_profile :: bool
  bot_has_set_qq_avatar :: bool
  set_qq_profile_raises :: bool
  set_qq_avatar_raises :: bool

text \<open>
  The texts the plugin replies with. The source has them in Chinese; each constructor
  is one of its message templates, with the values it inserts.
\<close>

datatype message =
    Plain string
  | Switched_persona_to string
  | Need_admin
  | Error_text error
  | Persona_deleted string
  | Persona_exists_use_update string
  | Send_content_prompt
  | Create_failed error
  | Create_succeeded string
  | Wait_timed_out_cancelled
  | Create_flow_failed error

text \<open>A call of the bot's profile interface, and whether it returned (did not raise).\<close>

datatype push = Set_qq_profile string bool | Set_qq_avatar string bool

datatype conf_target = Origin_conf string | Default_conf

text \<open>
  What the plugin asks of its collaborators, in the order of the calls: a conversation
  created for an origin with a persona, the current conversation updated (the flag: with
  the history reset to the empty list), \<open>default_personality\<close> set in a configuration and
  saved, a call of the bot's profile interface, a persona created or deleted in the
  store, a message sent on an event.
\<close>

datatype effect =
    New_conversation string string
  | Update_conversation string string string bool
  | Config_saved conf_target string
  | Bot_call push
  | Persona_created string string "string list option"
  | Persona_removed string
  | Sent event message

record persona =
  system_prompt :: string
  begin_dialogs :: "string list option"
  tools :: "string list option"

record QQProfileSync =
  enabled :: bool
  sync_nickname :: bool
  sync_avatar :: bool
  nickname_template :: string
  last_synced_persona :: "(string \<times> string) list"
  avatar_dir :: string

text \<open>
  The plugin instance (\<open>self\<close>) with what it reads of its collaborators. The persona
  store maps each id it holds to its persona; \<open>curr_cid\<close> is the answer of
  \<open>get_curr_conversation_id\<close> for an origin (\<open>None\<close> for a falsy one); \<open>origin_conf\<close>
  gives the \<open>admins_id\<close> of the configuration \<open>get_conf\<close> returns for an origin (\<open>None\<close>
  when that is falsy); \<open>files\<close> are the paths that exist on disk; \<open>effects\<close> records
  the calls made so far.
\<close>

record state =
  keyword_mappings :: "KeywordMapping list"
  auto_switch_scope :: string
  keyword_switch_enabled :: bool
  manage_wait_timeout :: int
  require_admin_for_manage :: bool
  auto_switch_announce :: bool
  clear_context_on_switch :: bool
  qq_sync :: QQProfileSync
  personas :: "string \<rightharpoonup> persona"
  curr_cid :: "string \<rightharpoonup> string"
  origin_conf :: "string \<rightharpoonup> string list"
  default_admins :: "string list"
  files :: "string set"
  effects :: "effect list"

subsection \<open>The persona store\<close>

text \<open>
  The persona store is a collaborator outside the repository (the framework's
  \<open>PersonaManager\<close>), taken as the specification describes it: ids are unique; \<open>get\<close>
  and \<open>delete\<close> fail with a ValueError when the id is absent, \<open>create\<close> when it is
  present.
\<close>

definition get_persona :: "state \<Rightarrow> string \<Rightarrow> error + persona" where
  "get_persona s pid =
     (case personas s pid of None \<Rightarrow> Inl (Persona_not_found pid) | Some p \<Rightarrow> Inr p)"

definition delete_persona :: "state \<Rightarrow> string \<Rightarrow> state \<times> (error + unit)" where
  "delete_persona s pid =
     (case personas s pid of
        None \<Rightarrow> (s, Inl (Persona_not_found pid))
      | Some p \<Rightarrow> (s\<lparr>personas := (personas s)(pid := None),
                      effects := effects s @ [Persona_removed pid]\<rparr>, Inr ()))"

definition create_persona ::
  "state \<Rightarrow> string \<Rightarrow> string \<Rightarrow> string list option \<Rightarrow> string list option \<Rightarrow> state \<times> (error + unit)" where
  "create_persona s pid prompt dialogs tls =
     (case personas s pid of
        Some p \<Rightarrow> (s, Inl (Persona_exists pid))
      | None \<Rightarrow>
          (s\<lparr>personas := (personas s)(pid \<mapsto>
                 \<lparr>system_prompt = prompt, begin_dialogs = dialogs, tools = tls\<rparr>),
              effects := effects s @ [Persona_created pid prompt dialogs]\<rparr>, Inr ()))"

section \<open>Profile synchronisation (\<open>qq_profile_sync.py\<close>)\<close>

text \<open>
  \<open>template.format(persona_id=pid)\<close> is a parameter of the model: the text it returns,
  or \<open>None\<close> when it raises.
\<close>

type_synonym formatter = "string \<Rightarrow> string \<Rightarrow> string option"

function format_plain_fields :: formatter where
  \<comment> \<open>\<open>str.format\<close> on the templates whose replacement fields are all the plain
      \<open>{persona_id}\<close>: the field gives the persona id, a doubled brace one brace; any
      other brace is answered as an error here. It serves to run the model on concrete
      templates; the theorems hold for every formatter.\<close>
  "format_plain_fields [] pid = Some []"
| "format_plain_fields (c # cs) pid =
     (if c = CHR ''{'' then
        (if startswith cs ''{'' then map_option (Cons (CHR ''{'')) (format_plain_fields (tl cs) pid)
         else if startswith cs ''persona_id}''
           then map_option (append pid) (format_plain_fields (drop 11 cs) pid)
         else None)
      else if c = CHR ''}'' then
        (if startswith cs ''}'' then map_option (Cons (CHR ''}'')) (format_plain_fields (tl cs) pid)
         else None)
      else map_option (Cons c) (format_plain_fields cs pid))"
  by pat_completeness auto
termination
  by (relation "measure (\<lambda>(t, pid). length t)") auto

definition new_qq_sync :: "string \<Rightarrow> QQProfileSync" where
  \<comment> \<open>\<open>QQProfileSync.__init__\<close>, with the avatar directory it is given.\<close>
  "new_qq_sync dir =
     \<lparr>enabled = False, sync_nickname = True, sync_avatar = False,
      nickname_template = ''{persona_id}'', last_synced_persona = [], avatar_dir = dir\<rparr>"

definition load_config :: "QQProfileSync \<Rightarrow> (bool \<times> bool \<times> string) option \<Rightarrow> QQProfileSync" where
  \<comment> \<open>\<open>QQProfileSync.load_config\<close>: without a configuration, or with the values of
      \<open>sync_nickname_on_switch\<close>, \<open>sync_avatar_on_switch\<close> and \<open>nickname_template\<close>.\<close>
  "load_config q config =
     (case config of
        None \<Rightarrow> q\<lparr>sync_nickname := True, sync_avatar := False, enabled := True,
                   nickname_template := ''{persona_id}''\<rparr>
      | Some (nick, avatar, template) \<Rightarrow>
          q\<lparr>sync_nickname := nick, sync_avatar := avatar, enabled := (nick \<or> avatar),
            nickname_template := template\<rparr>)"

definition format_nickname :: "formatter \<Rightarrow> QQProfileSync \<Rightarrow> string \<Rightarrow> string" where
  "format_nickname fmt q pid =
     (let nickname = (case fmt (nickname_template q) pid of Some n \<Rightarrow> n | None \<Rightarrow> pid)
      in if nickname \<noteq> [] then take 60 nickname else take 60 pid)"

definition get_avatar_path :: "QQProfileSync \<Rightarrow> string \<Rightarrow> string" where
  \<comment> \<open>\<open>avatar_dir / f"{persona_id}.jpg"\<close>, as the text of the path.\<close>
  "get_avatar_path q pid = avatar_dir q @ ''/'' @ pid @ ''.jpg''"

definition reset_persona_cache :: "QQProfileSync \<Rightarrow> string \<Rightarrow> QQProfileSync" where
  "reset_persona_cache q pid =
     (let to_remove = map fst (filter (\<lambda>kv. snd kv = pid) (last_synced_persona q))
      in q\<lparr>last_synced_persona := fold AList.delete to_remove (last_synced_persona q)\<rparr>)"

definition delete_avatar :: "state \<Rightarrow> string \<Rightarrow> state" where
  "delete_avatar s pid =
     (let avatar_path = get_avatar_path (qq_sync s) pid;
          s1 = (if avatar_path \<in> files s then s\<lparr>files := files s - {avatar_path}\<rparr> else s)
      in s1\<lparr>qq_sync := reset_persona_cache (qq_sync s1) pid\<rparr>)"

definition clear_cache :: "QQProfileSync \<Rightarrow> QQProfileSync" where
  "clear_cache q = q\<lparr>last_synced_persona := []\<rparr>"

definition bot_key_of :: "event \<Rightarrow> string" where
  \<comment> \<open>\<open>f"{event.get_platform_id()}:{event.get_self_id()}"\<close>.\<close>
  "bot_key_of ev = platform_id ev @ '':'' @ self_id ev"

definition maybe_sync_profile ::
  "formatter \<Rightarrow> string set \<Rightarrow> QQProfileSync \<Rightarrow> event \<Rightarrow> string \<Rightarrow> bool \<Rightarrow> QQProfileSync \<times> push list" where
  \<comment> \<open>\<open>maybe_sync_profile\<close>, given the files on disk: the instance after the call and the
      calls of the bot's interface it made.\<close>
  "maybe_sync_profile fmt fs q ev pid force =
     (if \<not> is_aiocqhttp ev then (q, [])
      else if \<not> (enabled q \<or> force) then (q, [])
      else
        let sync_n = (force \<or> sync_nickname q);
            sync_a = (force \<or> sync_avatar q)
        in if \<not> (sync_n \<or> sync_a) then (q, [])
           else
             let bot_key = bot_key_of ev
             in if \<not> force \<and> map_of (last_synced_persona q) bot_key = Some pid then (q, [])
                else
                  let nickname_calls =
                        (if sync_n \<and> bot_has_set_qq_profile ev
                         then [Set_qq_profile (format_nickname fmt q pid) (\<not> set_qq_profile_raises ev)]
                         else []);
                      nickname_applied =
                        (sync_n \<and> bot_has_set_qq_profile ev \<and> \<not> set_qq_profile_raises ev);
                      avatar_path = get_avatar_path q pid;
                      avatar_calls =
                        (if sync_a \<and> avatar_path \<in> fs \<and> bot_has_set_qq_avatar ev
                         then [Set_qq_avatar avatar_path (\<not> set_qq_avatar_raises ev)]
                         else []);
                      avatar_synced =
                        (sync_a \<and> avatar_path \<in> fs \<and> bot_has_set_qq_avatar ev
                         \<and> \<not> set_qq_avatar_raises ev)
                  in (if nickname_applied \<or> avatar_synced
                      then q\<lparr>last_synced_persona := AList.update bot_key pid (last_synced_persona q)\<rparr>
                      else q,
                      nickname_calls @ avatar_calls))"

definition succeeded :: "push \<Rightarrow> bool" where
  "succeeded p = (case p of Set_qq_profile n ok \<Rightarrow> ok | Set_qq_avatar f ok \<Rightarrow> ok)"

section \<open>Switching personas (\<open>main.py\<close>)\<close>

definition truthy_announce :: "message option \<Rightarrow> bool" where
  \<comment> \<open>\<open>if announce:\<close>: a text that is not empty.\<close>
  "truthy_announce a = (case a of None \<Rightarrow> False | Some (Plain t) \<Rightarrow> t \<noteq> [] | Some m \<Rightarrow> True)"

definition update_current_conversation :: "state \<Rightarrow> string \<Rightarrow> string \<Rightarrow> state" where
  \<comment> \<open>The \<open>if cid: update_conversation(...)\<close> of the session and global scopes.\<close>
  "update_current_conversation s umo pid =
     (case curr_cid s umo of
        None \<Rightarrow> s
      | Some cid \<Rightarrow>
          s\<lparr>effects := effects s @ [Update_conversation umo cid pid (clear_context_on_switch s)]\<rparr>)"

definition switch_persona ::
  "formatter \<Rightarrow> state \<Rightarrow> event \<Rightarrow> string \<Rightarrow> message option \<Rightarrow> state \<times> (error + message option)" where
  \<comment> \<open>\<open>_switch_persona\<close>: the state after the call, and the exception or the reply.\<close>
  "switch_persona fmt s ev pid announce =
     (case get_persona s pid of
        Inl exc \<Rightarrow> (s, Inl exc)
      | Inr p \<Rightarrow>
          let umo = unified_msg_origin ev;
              scope = auto_switch_scope s;
              s1 = (if scope = ''conversation'' then
                      (case curr_cid s umo of
                         None \<Rightarrow> s\<lparr>effects := effects s @ [New_conversation umo pid]\<rparr>
                       | Some cid \<Rightarrow>
                           s\<lparr>effects := effects s @
                                [Update_conversation umo cid pid (clear_context_on_switch s)]\<rparr>)
                    else if scope = ''session'' then
                      update_current_conversation
                        (case origin_conf s umo of
                           None \<Rightarrow> s
                         | Some c \<Rightarrow> s\<lparr>effects := effects s @ [Config_saved (Origin_conf umo) pid]\<rparr>)
                        umo pid
                    else if scope = ''global'' then
                      update_current_conversation
                        (s\<lparr>effects := effects s @ [Config_saved Default_conf pid]\<rparr>) umo pid
                    else s);
              (q, calls) = maybe_sync_profile fmt (files s1) (qq_sync s1) ev pid False;
              s2 = s1\<lparr>qq_sync := q, effects := effects s1 @ map Bot_call calls\<rparr>
          in (s2, Inr (if truthy_announce announce then announce else None)))"

subsection \<open>Permissions\<close>

definition collect_admin_ids :: "state \<Rightarrow> string \<Rightarrow> string list" where
  "collect_admin_ids s umo =
     default_admins s @
     (if umo \<noteq> [] then (case origin_conf s umo of None \<Rightarrow> [] | Some admins \<Rightarrow> admins) else [])"

definition has_manage_permission :: "state \<Rightarrow> event \<Rightarrow> bool" where
  "has_manage_permission s ev =
     (if is_admin ev then True
      else sender_id ev \<in> set (collect_admin_ids s (unified_msg_origin ev)))"

definition has_permission :: "state \<Rightarrow> event \<Rightarrow> bool \<Rightarrow> bool \<Rightarrow> bool" where
  \<comment> \<open>\<open>_has_permission(event, manage_operation=..., force_admin=...)\<close>.\<close>
  "has_permission s ev manage_operation force_admin =
     (let need_admin = (force_admin \<or> (manage_operation \<and> require_admin_for_manage s))
      in if \<not> need_admin then True else has_manage_permission s ev)"

subsection \<open>The keyword listener\<close>

definition announce_for :: "formatter \<Rightarrow> state \<Rightarrow> KeywordMapping \<Rightarrow> error + message option" where
  \<comment> \<open>The announce text \<open>on_message\<close> computes for a rule that matched.\<close>
  "announce_for fmt s m =
     (if reply_template m \<noteq> [] then
        (case fmt (reply_template m) (persona_id m) of
           None \<Rightarrow> Inl Format_error
         | Some a \<Rightarrow> Inr (Some (Plain a)))
      else if auto_switch_announce s then Inr (Some (Switched_persona_to (persona_id m)))
      else Inr None)"

definition yield_result ::
  "state \<times> (error + message option) \<Rightarrow> state \<times> (error + message list)" where
  \<comment> \<open>\<open>if result is not None: yield result\<close>, after \<open>_switch_persona\<close> returned or
      raised.\<close>
  "yield_result sr =
     (case sr of
        (s', Inl exc) \<Rightarrow> (s', Inl exc)
      | (s', Inr None) \<Rightarrow> (s', Inr [])
      | (s', Inr (Some r)) \<Rightarrow> (s', Inr [r]))"

fun on_message_loop ::
  "formatter \<Rightarrow> state \<Rightarrow> event \<Rightarrow> string \<Rightarrow> KeywordMapping list \<Rightarrow> state \<times> (error + message list)" where
  \<comment> \<open>The \<open>for mapping in self.keyword_mappings\<close> loop with its \<open>break\<close>: the state
      after it, and the exception or the results the handler yields.\<close>
  "on_message_loop fmt s ev text [] = (s, Inr [])"
| "on_message_loop fmt s ev text (m # ms) =
     (if matches m text then
        (case announce_for fmt s m of
           Inl exc \<Rightarrow> (s, Inl exc)
         | Inr announce \<Rightarrow> yield_result (switch_persona fmt s ev (persona_id m) announce))
      else on_message_loop fmt s ev text ms)"

definition on_message :: "formatter \<Rightarrow> state \<Rightarrow> event \<Rightarrow> state \<times> (error + message list)" where
  "on_message fmt s ev =
     (let text = message_str ev
      in if text = [] \<or> \<not> keyword_switch_enabled s \<or> keyword_mappings s = [] then (s, Inr [])
         else on_message_loop fmt s ev text (keyword_mappings s))"

subsection \<open>The delete and create commands\<close>

definition cmd_delete :: "state \<Rightarrow> event \<Rightarrow> string \<Rightarrow> state \<times> message list" where
  \<comment> \<open>\<open>cmd_delete\<close>: the state after the command and the results it yields.\<close>
  "cmd_delete s ev pid =
     (if \<not> has_permission s ev True True then (s, [Need_admin])
      else case delete_persona s pid of
             (s', Inl exc) \<Rightarrow> (s', [Error_text exc])
           | (s', Inr u) \<Rightarrow> (s', [Persona_deleted pid]))"

definition read_file_component :: "component \<Rightarrow> error + string option" where
  "read_file_component c =
     (case c of
        File_component content_path suffix content \<Rightarrow>
          if content_path = [] then Inr None
          else if lower suffix \<notin> set [''.txt'', ''.md'', ''.json''] then Inl Unsupported_file_type
          else Inr (Some content)
      | Other_component \<Rightarrow> Inr None)"

fun extract_from_components :: "component list \<Rightarrow> error + string" where
  \<comment> \<open>The loop of \<open>_extract_persona_from_event\<close> over the message chain.\<close>
  "extract_from_components [] = Inl No_content_found"
| "extract_from_components (c # cs) =
     (case read_file_component c of
        Inl exc \<Rightarrow> Inl exc
      | Inr None \<Rightarrow> extract_from_components cs
      | Inr (Some d) \<Rightarrow> if d \<noteq> [] then Inr d else extract_from_components cs)"

definition extract_persona_from_event :: "event \<Rightarrow> error + string" where
  "extract_persona_from_event ev =
     (if strip (message_str ev) \<noteq> [] then Inr (message_str ev)
      else extract_from_components (message ev))"

definition create_persona_checked ::
  "state \<Rightarrow> string \<Rightarrow> string \<Rightarrow> string list \<Rightarrow> state \<times> (error + unit)" where
  \<comment> \<open>\<open>_create_persona\<close> (with \<open>tools=None\<close>).\<close>
  "create_persona_checked s pid prompt dialogs =
     (case get_persona s pid of
        Inl exc \<Rightarrow> create_persona s pid prompt (if dialogs \<noteq> [] then Some dialogs else None) None
      | Inr p \<Rightarrow> (s, Inl (Persona_exists pid)))"

definition send :: "state \<Rightarrow> event \<Rightarrow> message \<Rightarrow> state" where
  \<comment> \<open>\<open>await ev.send(ev.plain_result(m))\<close>.\<close>
  "send s ev m = s\<lparr>effects := effects s @ [Sent ev m]\<rparr>"

definition create_waiter :: "(string \<Rightarrow> decoded) \<Rightarrow> state \<Rightarrow> string \<Rightarrow> event \<Rightarrow> state" where
  \<comment> \<open>The one-shot callback of \<open>cmd_create\<close>, run on the next event.\<close>
  "create_waiter loads s pid next_event =
     (let (s', r) =
            (case extract_persona_from_event next_event of
               Inl exc \<Rightarrow> (s, Inl exc)
             | Inr raw_text \<Rightarrow>
                 (case parse_persona_payload loads raw_text of
                    Inl exc \<Rightarrow> (s, Inl exc)
                  | Inr (prompt, dialogs) \<Rightarrow> create_persona_checked s pid prompt dialogs))
      in case r of
           Inl exc \<Rightarrow> send s' next_event (Create_failed exc)
         | Inr u \<Rightarrow> send s' next_event (Create_succeeded pid))"

text \<open>
  How the wait of \<open>session_waiter\<close> ends for the task: the time limit passes before an
  event of the session arrives (it raises TimeoutError), the next event of the session
  arrives (the callback runs on it), or the wait raises another exception.
\<close>

datatype wait_outcome = Timed_out | Next_event event | Wait_raised error

definition wait_for_create ::
  "(string \<Rightarrow> decoded) \<Rightarrow> state \<Rightarrow> event \<Rightarrow> string \<Rightarrow> wait_outcome \<Rightarrow> state" where
  \<comment> \<open>The task \<open>cmd_create\<close> starts, from the state in which the wait ends.\<close>
  "wait_for_create loads s ev pid outcome =
     (case outcome of
        Next_event next_event \<Rightarrow> create_waiter loads s pid next_event
      | Timed_out \<Rightarrow> send s ev Wait_timed_out_cancelled
      | Wait_raised exc \<Rightarrow> send s ev (Create_flow_failed exc))"

definition cmd_create :: "state \<Rightarrow> event \<Rightarrow> string \<Rightarrow> message list \<times> bool" where
  \<comment> \<open>\<open>cmd_create\<close>: the results the handler yields, and whether it started the task
      \<open>wait_for_create\<close> (for this event and persona id).\<close>
  "cmd_create s ev pid =
     (if \<not> has_permission s ev True False then ([Need_admin], False)
      else case get_persona s pid of
             Inr p \<Rightarrow> ([Persona_exists_use_update pid], False)
           | Inl exc \<Rightarrow> ([Send_content_prompt], True))"

subsection \<open>A plugin just constructed\<close>

definition new_plugin :: "string \<Rightarrow> state" where
  \<comment> \<open>\<open>PersonaPlus.__init__\<close> without a configuration (\<open>_load_config\<close> then only calls
      \<open>qq_sync.load_config(None)\<close>), beside collaborators that hold nothing yet.\<close>
  "new_plugin dir =
     \<lparr>keyword_mappings = [], auto_switch_scope = ''conversation'',
      keyword_switch_enabled = True, manage_wait_timeout = 120,
      require_admin_for_manage = False, auto_switch_announce = False,
      clear_context_on_switch = False, qq_sync = load_config (new_qq_sync dir) None,
      personas = Map.empty, curr_cid = Map.empty, origin_conf = Map.empty,
      default_admins = [], files = {}, effects = []\<rparr>"

definition qq_event :: "string \<Rightarrow> event" where
  \<comment> \<open>An event of the examples: a text sent by an administrator through the QQ adapter
      \<open>aiocqhttp\<close> to the bot \<open>10001\<close>, whose adapter has both profile calls, neither
      of which raises.\<close>
  "qq_event t =
     \<lparr>is_aiocqhttp = True, platform_id = ''aiocqhttp'', self_id = ''10001'',
      unified_msg_origin = ''aiocqhttp:GroupMessage:42'', message_str = t, message = [],
      is_admin = True, sender_id = ''7'', bot_has_set_qq_profile = True,
      bot_has_set_qq_avatar = True, set_qq_profile_raises = False,
      set_qq_avatar_raises = False\<rparr>"

definition synced_plugin :: state where
  \<comment> \<open>A plugin of the examples: its store holds the persona \<open>cat\<close>, and its cache records
      that the profile of the bot \<open>10001\<close> was synced to \<open>cat\<close>.\<close>
  "synced_plugin =
     (new_plugin ''avatars'')
       \<lparr>qq_sync := (load_config (new_qq_sync ''avatars'') None)
                     \<lparr>last_synced_persona := [(''aiocqhttp:10001'', ''cat'')]\<rparr>,
        personas := [''cat'' \<mapsto> \<lparr>system_prompt = ''You are a cat.'', begin_dialogs = None,
                                   tools = None\<rparr>]\<rparr>"

section \<open>The specification's words, as definitions\<close>

definition spec_rule_of_line :: "string \<Rightarrow> KeywordMapping option" where
  \<comment> \<open>The rule the specification gives for one entry (4.1): the entry is split at its
      first colon; the legacy prefix up to a \<open>|\<close> of the left side is discarded; an
      entry with no colon, or with an empty keyword or persona id after trimming, gives
      no rule.\<close>
  "spec_rule_of_line line =
     (if CHR '':'' \<notin> set line then None
      else
        let left = strip (takeWhile (\<lambda>c. c \<noteq> CHR '':'') line);
            pid = strip (tl (dropWhile (\<lambda>c. c \<noteq> CHR '':'') line));
            kw = (if CHR ''|'' \<in> set left
                  then strip (tl (dropWhile (\<lambda>c. c \<noteq> CHR ''|'') left)) else left)
        in if kw = [] \<or> pid = [] then None
           else Some \<lparr>keyword = kw, persona_id = pid, case_sensitive = False, reply_template = []\<rparr>)"

definition is_entry :: "string \<Rightarrow> bool" where
  \<comment> \<open>A line that is an entry: not empty, not a comment.\<close>
  "is_entry line = (line \<noteq> [] \<and> \<not> startswith line ''#'')"

definition is_rejection :: "log_record \<Rightarrow> bool" where
  \<comment> \<open>The log record of an entry that was dropped.\<close>
  "is_rejection r = (case r of Error_mapping_rejected e \<Rightarrow> True | _ \<Rightarrow> False)"

section \<open>The keyword configuration\<close>

lemma partition_at_no_sep: "sep \<notin> set s \<Longrightarrow> partition_at sep s = (s, [], [])"
proof -
  assume "sep \<notin> set s"
  then have d: "dropWhile (\<lambda>c. c \<noteq> sep) s = []" by (auto simp: dropWhile_eq_Nil_conv)
  show ?thesis unfolding partition_at_def d by simp
qed

lemma partition_at_sep:
  "sep \<in> set s \<Longrightarrow>
   partition_at sep s = (takeWhile (\<lambda>c. c \<noteq> sep) s, [sep], tl (dropWhile (\<lambda>c. c \<noteq> sep) s))"
  by (cases "dropWhile (\<lambda>c. c \<noteq> sep) s") (auto simp: partition_at_def dropWhile_eq_Nil_conv)

lemma parse_mapping_entry_spec:
  "snd (parse_mapping_entry e) =
     (case spec_rule_of_line e of
        Some m \<Rightarrow> Inr m
      | None \<Rightarrow> Inl (if CHR '':'' \<notin> set e then Invalid_mapping_format e
                    else if strip (tl (dropWhile (\<lambda>c. c \<noteq> CHR '':'') e)) = [] then Invalid_persona_id e
                    else Invalid_keyword e))"
  by (cases "CHR '':'' \<in> set e")
     (auto simp: parse_mapping_entry_def spec_rule_of_line_def partition_at_no_sep partition_at_sep Let_def)

lemma parse_mapping_entry_logs: "\<not> list_ex is_rejection (fst (parse_mapping_entry e))"
  by (cases "CHR '':'' \<in> set e")
     (auto simp: parse_mapping_entry_def partition_at_no_sep partition_at_sep Let_def is_rejection_def)

lemma load_entries_Cons:
  "load_entries (l # ls) =
     (if is_entry (strip l) then
        (case parse_mapping_entry (strip l) of
           (ws, Inr m) \<Rightarrow> (m # fst (load_entries ls), ws @ snd (load_entries ls))
         | (ws, Inl e) \<Rightarrow> (fst (load_entries ls), ws @ Error_mapping_rejected e # snd (load_entries ls)))
      else load_entries ls)"
  by (simp add: is_entry_def Let_def split: prod.splits sum.splits)

lemma parse_mapping_entry_cases:
  obtains (accepted) ws m where "parse_mapping_entry e = (ws, Inr m)" "spec_rule_of_line e = Some m"
      "filter is_rejection ws = []"
  | (rejected) ws x where "parse_mapping_entry e = (ws, Inl x)" "spec_rule_of_line e = None"
      "filter is_rejection ws = []"
proof -
  obtain ws r where p: "parse_mapping_entry e = (ws, r)" by (cases "parse_mapping_entry e")
  have ws: "filter is_rejection ws = []"
    using parse_mapping_entry_logs [of e] p by (simp add: list_ex_iff filter_empty_conv)
  show thesis
  proof (cases "spec_rule_of_line e")
    case None
    then have "\<exists>x. r = Inl x" using parse_mapping_entry_spec [of e] p by simp
    then show thesis using rejected p ws None by blast
  next
    case (Some m)
    then have "r = Inr m" using parse_mapping_entry_spec [of e] p by simp
    then show thesis using accepted p ws Some by blast
  qed
qed

lemma load_entries_rules:
  "fst (load_entries ls) = List.map_filter spec_rule_of_line (filter is_entry (map strip ls))"
proof (induction ls)
  case Nil
  show ?case by (simp add: List.map_filter_simps)
next
  case (Cons l ls)
  show ?case
    by (cases "strip l" rule: parse_mapping_entry_cases)
       (simp_all add: load_entries_Cons Cons.IH List.map_filter_simps del: load_entries.simps)
qed

lemma load_entries_logs:
  "length (filter is_rejection (snd (load_entries ls))) =
   length (filter (\<lambda>l. spec_rule_of_line l = None) (filter is_entry (map strip ls)))"
proof (induction ls)
  case Nil
  show ?case by simp
next
  case (Cons l ls)
  have rej: "is_rejection (Error_mapping_rejected x)" for x by (simp add: is_rejection_def)
  show ?case
    by (cases "strip l" rule: parse_mapping_entry_cases)
       (simp_all add: load_entries_Cons Cons.IH rej del: load_entries.simps)
qed

text \<open>
  Claim C8. For every configuration text, the rules loaded are the rules of its entries
  (the lines that are not empty and not comments, trimmed), each split at its first
  colon, in the order of the lines; an entry with no colon, an empty keyword or an empty
  persona id gives no rule and one logged error, and the other entries are still
  loaded. The text of the scenario gives exactly the rules \<open>hello\<close> and \<open>hi\<close>.
\<close>

theorem load_keyword_mappings_drops_bad_entries:
  "fst (load_keyword_mappings (Conf_Str txt)) =
     List.map_filter spec_rule_of_line (filter is_entry (map strip (splitlines txt)))
   \<and> length (filter is_rejection (snd (load_keyword_mappings (Conf_Str txt)))) =
     length (filter (\<lambda>l. spec_rule_of_line l = None) (filter is_entry (map strip (splitlines txt))))
   \<and> load_keyword_mappings (Conf_Str (''hello:cheerful'' @ [CHR 0x0A] @ ''# comment'' @ [CHR 0x0A]
                                         @ ''bad_line'' @ [CHR 0x0A] @ ''hi:cheerful'')) =
       ([\<lparr>keyword = ''hello'', persona_id = ''cheerful'', case_sensitive = False, reply_template = []\<rparr>,
         \<lparr>keyword = ''hi'', persona_id = ''cheerful'', case_sensitive = False, reply_template = []\<rparr>],
        [Error_mapping_rejected (Invalid_mapping_format ''bad_line'')])"
proof (intro conjI)
  have valid: "keyword m \<noteq> [] \<and> persona_id m \<noteq> []" if "spec_rule_of_line l = Some m" for l m
    using that by (auto simp: spec_rule_of_line_def Let_def split: if_splits)
  have "filter (\<lambda>m. keyword m \<noteq> [] \<and> persona_id m \<noteq> []) (List.map_filter spec_rule_of_line ls)
        = List.map_filter spec_rule_of_line ls" for ls
    by (rule filter_True) (auto simp: List.map_filter_def dest: valid)
  then show "fst (load_keyword_mappings (Conf_Str txt)) =
     List.map_filter spec_rule_of_line (filter is_entry (map strip (splitlines txt)))"
    using load_entries_rules [of "splitlines txt"]
    by (cases "load_entries (splitlines txt)") (simp add: load_keyword_mappings_def)
  show "length (filter is_rejection (snd (load_keyword_mappings (Conf_Str txt)))) =
     length (filter (\<lambda>l. spec_rule_of_line l = None) (filter is_entry (map strip (splitlines txt))))"
    using load_entries_logs [of "splitlines txt"]
    by (cases "load_entries (splitlines txt)") (simp add: load_keyword_mappings_def)
  show "load_keyword_mappings (Conf_Str (''hello:cheerful'' @ [CHR 0x0A] @ ''# comment'' @ [CHR 0x0A]
                                         @ ''bad_line'' @ [CHR 0x0A] @ ''hi:cheerful'')) =
       ([\<lparr>keyword = ''hello'', persona_id = ''cheerful'', case_sensitive = False, reply_template = []\<rparr>,
         \<lparr>keyword = ''hi'', persona_id = ''cheerful'', case_sensitive = False, reply_template = []\<rparr>],
        [Error_mapping_rejected (Invalid_mapping_format ''bad_line'')])"
    by (simp add: load_keyword_mappings_def splitlines_def is_linebreak_def strip_def isspace_def
                  parse_mapping_entry_def partition_at_def)
qed

theorem load_keyword_mappings_drops_bad_entries_witness:
  "fst (load_keyword_mappings (Conf_Str (''a:p'' @ [CHR 0x0A] @ ''bad'' @ [CHR 0x0A] @ '' b : q ''))) =
     [\<lparr>keyword = ''a'', persona_id = ''p'', case_sensitive = False, reply_template = []\<rparr>,
      \<lparr>keyword = ''b'', persona_id = ''q'', case_sensitive = False, reply_template = []\<rparr>]
   \<and> length (filter is_rejection
         (snd (load_keyword_mappings (Conf_Str (''a:p'' @ [CHR 0x0A] @ ''bad'' @ [CHR 0x0A] @ '' b : q ''))))) = 1"
  using load_keyword_mappings_drops_bad_entries
          [of "''a:p'' @ [CHR 0x0A] @ ''bad'' @ [CHR 0x0A] @ '' b : q ''"]
  by (simp add: spec_rule_of_line_def is_entry_def splitlines_def is_linebreak_def strip_def
                isspace_def List.map_filter_simps)

section \<open>The payload parser\<close>

text \<open>The equations that run the decoder and the parser on a concrete text.\<close>

lemmas run_json =
  json_loads_def parse_value.simps skip_ws_def json_ws_def unescape_def scan_number_def
  is_digit_def nat_of_digits_def digit_val_def strip_def isspace_def

lemmas run_payload =
  parse_persona_payload_def dict_get_def py_str_def show_int_def show_nat.simps digit_char_def

text \<open>
  Claim C1, as stated, fails: the texts \<open>123\<close>, \<open>"hello"\<close> and \<open>[1, 2]\<close> are valid JSON
  of a non-object type, and the parser raises its ValueError "the JSON must be an object"
  on each instead of returning the text as the system prompt.
\<close>

theorem parse_persona_payload_non_object_counterexample:
  "json_loads (strip ''123'') = Decoded (JInt 123)
   \<and> parse_persona_payload json_loads ''123'' = Inl Json_not_object
   \<and> parse_persona_payload json_loads ''123'' \<noteq> Inr (strip ''123'', [])
   \<and> json_loads (strip ''\"hello\"'') = Decoded (JStr ''hello'')
   \<and> parse_persona_payload json_loads ''\"hello\"'' = Inl Json_not_object
   \<and> json_loads (strip ''[1, 2]'') = Decoded (JArr [JInt 1, JInt 2])
   \<and> parse_persona_payload json_loads ''[1, 2]'' = Inl Json_not_object"
  by (simp add: run_json run_payload)

text \<open>
  Claim C1, amended. For every input whose trimmed text is not empty: if it decodes to
  a JSON value that is not an object, \<open>_parse_persona_payload\<close> fails with the ValueError
  "the JSON must be an object"; only a text that does not decode as JSON at all is taken
  as plain text, the whole trimmed text becoming the system prompt with no dialogs.
\<close>

theorem parse_persona_payload_non_object_rejected:
  assumes "strip raw \<noteq> []"
  shows "(loads (strip raw) = Decoded v \<and> \<not> is_object v \<longrightarrow>
            parse_persona_payload loads raw = Inl Json_not_object)
       \<and> (loads (strip raw) = JSONDecodeError \<longrightarrow>
            parse_persona_payload loads raw = Inr (strip raw, []))"
  using assms by (cases v) (simp_all add: parse_persona_payload_def)

theorem parse_persona_payload_non_object_rejected_witness:
  "parse_persona_payload json_loads '' [true] '' = Inl Json_not_object
   \<and> parse_persona_payload json_loads '' You are a cat. '' = Inr (''You are a cat.'', [])"
proof -
  have a: "strip '' [true] '' \<noteq> []" by (simp add: strip_def isspace_def)
  have b: "json_loads (strip '' [true] '') = Decoded (JArr [JBool True])" by (simp add: run_json)
  have c: "strip '' You are a cat. '' \<noteq> []" by (simp add: strip_def isspace_def)
  have d: "json_loads (strip '' You are a cat. '') = JSONDecodeError" by (simp add: run_json)
  have e: "strip '' You are a cat. '' = ''You are a cat.''" by (simp add: strip_def isspace_def)
  show ?thesis
    using parse_persona_payload_non_object_rejected [where loads = json_loads and v = "JArr [JBool True]", OF a]
          parse_persona_payload_non_object_rejected [where loads = json_loads and v = JNull, OF c] b d e
    by simp
qed

text \<open>
  Claim C7, as stated, fails: the object \<open>{"system_prompt": 5}\<close> holds no system prompt
  string, and the parser succeeds on it with the prompt \<open>5\<close>.
\<close>

theorem parse_persona_payload_object_counterexample:
  "json_loads (strip ''{\"system_prompt\": 5}'') = Decoded (JObj [(''system_prompt'', JInt 5)])
   \<and> parse_persona_payload json_loads ''{\"system_prompt\": 5}'' = Inr (''5'', [])"
  by (simp add: run_json run_payload)

text \<open>
  Claim C7, amended. For every input that decodes to a JSON object, the parser fails
  with "system_prompt is missing" exactly when the member \<open>system_prompt\<close> is absent or
  falsy (null, false, zero, an empty string, array or object); any other value is
  accepted and converted with \<open>str\<close>, a string that is not empty being taken as it is.
  With such a prompt: without a member \<open>begin_dialogs\<close> the result has no dialogs; when
  \<open>begin_dialogs\<close> is an array, the parser fails if its length is odd and succeeds for
  every even length, zero included, each element converted with \<open>str\<close>.
\<close>

theorem parse_persona_payload_object:
  assumes "strip raw \<noteq> []" and "loads (strip raw) = Decoded (JObj members)"
  shows "let prompt = dict_get members ''system_prompt'' JNull in
         (parse_persona_payload loads raw = Inl Missing_system_prompt \<longleftrightarrow> \<not> truthy prompt)
       \<and> (truthy prompt \<and> map_of members ''begin_dialogs'' = None \<longrightarrow>
            parse_persona_payload loads raw = Inr (py_str prompt, []))
       \<and> (truthy prompt \<and> map_of members ''begin_dialogs'' = Some (JArr ds) \<longrightarrow>
            parse_persona_payload loads raw =
              (if odd (length ds) then Inl Odd_begin_dialogs
               else Inr (py_str prompt, map py_str ds)))
       \<and> (prompt = JStr p \<longrightarrow> truthy prompt = (p \<noteq> []) \<and> py_str prompt = p)"
proof -
  define prompt where "prompt = dict_get members ''system_prompt'' JNull"
  let ?bd = "dict_get members ''begin_dialogs'' (JArr [])"
  have r: "parse_persona_payload loads raw =
      (if \<not> truthy prompt then Inl Missing_system_prompt
       else let converted = (case py_iter ?bd of None \<Rightarrow> Inl Type_error
                             | Some xs \<Rightarrow> Inr (py_str prompt, map py_str xs))
            in if truthy ?bd then
                 (case py_len ?bd of None \<Rightarrow> Inl Type_error
                  | Some n \<Rightarrow> if n mod 2 \<noteq> 0 then Inl Odd_begin_dialogs else converted)
               else converted)"
    using assms unfolding prompt_def by (simp add: parse_persona_payload_def Let_def)
  have 1: "parse_persona_payload loads raw = Inl Missing_system_prompt \<longleftrightarrow> \<not> truthy prompt"
    unfolding r by (auto simp: Let_def split: option.splits)
  have 2: "parse_persona_payload loads raw = Inr (py_str prompt, [])"
    if "truthy prompt" "map_of members ''begin_dialogs'' = None"
    unfolding r using that by (simp add: dict_get_def)
  have 3: "parse_persona_payload loads raw =
              (if odd (length ds) then Inl Odd_begin_dialogs
               else Inr (py_str prompt, map py_str ds))"
    if "truthy prompt" "map_of members ''begin_dialogs'' = Some (JArr ds)"
    unfolding r using that by (cases ds) (auto simp: dict_get_def odd_iff_mod_2_eq_one)
  have 4: "truthy prompt = (p \<noteq> []) \<and> py_str prompt = p" if "prompt = JStr p"
    using that by (simp add: py_str_def)
  show ?thesis unfolding Let_def prompt_def [symmetric] using 1 2 3 4 by blast
qed

theorem parse_persona_payload_object_witness:
  "parse_persona_payload json_loads ''{\"system_prompt\":\"X\",\"begin_dialogs\":[\"hi\"]}''
     = Inl Odd_begin_dialogs
   \<and> parse_persona_payload json_loads ''{\"system_prompt\":\"X\",\"begin_dialogs\":[\"hi\", \"yo\"]}''
     = Inr (''X'', [''hi'', ''yo''])
   \<and> parse_persona_payload json_loads ''{\"system_prompt\":\"X\",\"begin_dialogs\":[]}''
     = Inr (''X'', [])
   \<and> parse_persona_payload json_loads ''{\"system_prompt\":\"\"}'' = Inl Missing_system_prompt"
proof -
  let ?a = "''{\"system_prompt\":\"X\",\"begin_dialogs\":[\"hi\"]}''"
  let ?b = "''{\"system_prompt\":\"X\",\"begin_dialogs\":[\"hi\", \"yo\"]}''"
  let ?c = "''{\"system_prompt\":\"X\",\"begin_dialogs\":[]}''"
  let ?d = "''{\"system_prompt\":\"\"}''"
  have a: "strip ?a \<noteq> []"
    "json_loads (strip ?a) =
       Decoded (JObj [(''system_prompt'', JStr ''X''), (''begin_dialogs'', JArr [JStr ''hi''])])"
    by (simp_all add: run_json)
  have b: "strip ?b \<noteq> []"
    "json_loads (strip ?b) =
       Decoded (JObj [(''system_prompt'', JStr ''X''),
                      (''begin_dialogs'', JArr [JStr ''hi'', JStr ''yo''])])"
    by (simp_all add: run_json)
  have c: "strip ?c \<noteq> []"
    "json_loads (strip ?c) =
       Decoded (JObj [(''system_prompt'', JStr ''X''), (''begin_dialogs'', JArr [])])"
    by (simp_all add: run_json)
  have d: "strip ?d \<noteq> []"
    "json_loads (strip ?d) = Decoded (JObj [(''system_prompt'', JStr [])])"
    by (simp_all add: run_json)
  show ?thesis
    using parse_persona_payload_object [where loads = json_loads and ds = "[JStr ''hi'']" and p = "''X''", OF a]
          parse_persona_payload_object [where loads = json_loads and ds = "[JStr ''hi'', JStr ''yo'']" and p = "''X''", OF b]
          parse_persona_payload_object [where loads = json_loads and ds = "[]" and p = "''X''", OF c]
          parse_persona_payload_object [where loads = json_loads and ds = "[]" and p = "[]", OF d]
    by (simp add: dict_get_def py_str_def)
qed

section \<open>Rules loaded from the configuration\<close>

text \<open>
  Claim C10. Every rule the configuration parser produces has \<open>case_sensitive\<close> false
  and an empty \<open>reply_template\<close>; so such a rule matches a text exactly when the
  lower-cased keyword occurs in the lower-cased text, and the announce text computed for
  it is never the rule's template: it is the generic message when the announce flag is
  set, and none otherwise.
\<close>

theorem config_rules_case_insensitive_without_template:
  assumes "m \<in> set (fst (load_keyword_mappings cv))"
  shows "\<not> case_sensitive m \<and> reply_template m = []
       \<and> matches m text = contains (lower text) (lower (keyword m))
       \<and> announce_for fmt s m =
           Inr (if auto_switch_announce s then Some (Switched_persona_to (persona_id m)) else None)"
proof -
  have entry: "\<not> case_sensitive r \<and> reply_template r = []"
    if "snd (parse_mapping_entry e) = Inr r" for e r
    using that by (auto simp: parse_mapping_entry_def Let_def split: prod.splits if_splits)
  have loop: "\<forall>r \<in> set (fst (load_entries ls)). \<not> case_sensitive r \<and> reply_template r = []" for ls
  proof (induction ls)
    case Nil
    show ?case by simp
  next
    case (Cons l ls)
    show ?case
      using Cons.IH entry [of "strip l"]
      by (cases "load_entries ls"; cases "parse_mapping_entry (strip l)")
         (auto simp: Let_def split: sum.splits)
  qed
  have "\<exists>ls. set (fst (load_keyword_mappings cv)) \<subseteq> set (fst (load_entries ls))"
  proof (cases cv)
    case Conf_None
    then show ?thesis by (intro exI [of _ "[]"]) (simp add: load_keyword_mappings_def)
  next
    case (Conf_Str t)
    then show ?thesis
      by (intro exI [of _ "splitlines t"]) (auto simp: load_keyword_mappings_def split: prod.splits)
  next
    case (Conf_Other t)
    then show ?thesis
      by (intro exI [of _ "splitlines t"]) (auto simp: load_keyword_mappings_def split: prod.splits)
  qed
  with assms loop have m: "\<not> case_sensitive m \<and> reply_template m = []" by blast
  then show ?thesis by (simp add: matches_def announce_for_def)
qed

theorem config_rules_case_insensitive_without_template_witness:
  "matches \<lparr>keyword = ''Hello'', persona_id = ''cheerful'', case_sensitive = False,
             reply_template = []\<rparr> ''oh HELLO there''
   \<and> fst (load_keyword_mappings (Conf_Str ''Hello:cheerful'')) =
       [\<lparr>keyword = ''Hello'', persona_id = ''cheerful'', case_sensitive = False,
          reply_template = []\<rparr>]"
proof -
  let ?m = "\<lparr>keyword = ''Hello'', persona_id = ''cheerful'', case_sensitive = False,
              reply_template = []\<rparr>"
  have l: "fst (load_keyword_mappings (Conf_Str ''Hello:cheerful'')) = [?m]"
    by (simp add: load_keyword_mappings_def splitlines_def is_linebreak_def strip_def isspace_def
                  parse_mapping_entry_def partition_at_def)
  then have "?m \<in> set (fst (load_keyword_mappings (Conf_Str ''Hello:cheerful'')))" by simp
  from config_rules_case_insensitive_without_template [OF this, of "''oh HELLO there''"]
  have "matches ?m ''oh HELLO there'' = contains (lower ''oh HELLO there'') (lower (keyword ?m))"
    by blast
  moreover have "contains (lower ''oh HELLO there'') (lower (keyword ?m))"
    by (simp add: lower_def lower_char_def upper_letters_def lower_letters_def)
  ultimately show ?thesis using l by blast
qed

section \<open>The profile-sync cache\<close>

text \<open>The equations that run a profile sync on concrete data.\<close>

lemmas run_sync =
  maybe_sync_profile_def bot_key_of_def format_nickname_def get_avatar_path_def
  new_qq_sync_def load_config_def qq_event_def succeeded_def

lemma sync_state_after:
  "fst (maybe_sync_profile fmt fs q ev pid force) =
     (if list_ex succeeded (snd (maybe_sync_profile fmt fs q ev pid force))
      then q\<lparr>last_synced_persona := AList.update (bot_key_of ev) pid (last_synced_persona q)\<rparr>
      else q)"
  by (auto simp: maybe_sync_profile_def Let_def succeeded_def)

lemma sync_noop_if_cached:
  "\<not> force \<Longrightarrow> map_of (last_synced_persona q) (bot_key_of ev) = Some pid \<Longrightarrow>
   maybe_sync_profile fmt fs q ev pid force = (q, [])"
  by (simp add: maybe_sync_profile_def Let_def)

text \<open>
  Claim C3. For every call of \<open>maybe_sync_profile\<close>, the instance after the call is the
  one before it with the cache entry of the bot identity set to the persona id if one of
  the calls it made (nickname or avatar) succeeded, and is unchanged otherwise: when both
  are skipped or fail, the cache stays as it was.
\<close>

theorem maybe_sync_profile_cache_update:
  "fst (maybe_sync_profile fmt fs q ev pid force) =
     (if list_ex succeeded (snd (maybe_sync_profile fmt fs q ev pid force))
      then q\<lparr>last_synced_persona := AList.update (bot_key_of ev) pid (last_synced_persona q)\<rparr>
      else q)"
  by (rule sync_state_after)

theorem maybe_sync_profile_cache_update_witness:
  "maybe_sync_profile format_plain_fields {} (load_config (new_qq_sync ''avatars'') None)
     (qq_event ''hi'') ''cat'' False
     = ((load_config (new_qq_sync ''avatars'') None)
          \<lparr>last_synced_persona := [(''aiocqhttp:10001'', ''cat'')]\<rparr>,
        [Set_qq_profile ''cat'' True])
   \<and> maybe_sync_profile format_plain_fields {} (load_config (new_qq_sync ''avatars'') None)
     ((qq_event ''hi'')\<lparr>bot_has_set_qq_profile := False\<rparr>) ''cat'' False
     = (load_config (new_qq_sync ''avatars'') None, [])
   \<and> maybe_sync_profile format_plain_fields {} (load_config (new_qq_sync ''avatars'') None)
     ((qq_event ''hi'')\<lparr>set_qq_profile_raises := True\<rparr>) ''cat'' False
     = (load_config (new_qq_sync ''avatars'') None, [Set_qq_profile ''cat'' False])"
proof -
  let ?q = "load_config (new_qq_sync ''avatars'') None"
  have a: "snd (maybe_sync_profile format_plain_fields {} ?q (qq_event ''hi'') ''cat'' False)
             = [Set_qq_profile ''cat'' True]"
    by (simp add: run_sync)
  have b: "snd (maybe_sync_profile format_plain_fields {} ?q
                  ((qq_event ''hi'')\<lparr>bot_has_set_qq_profile := False\<rparr>) ''cat'' False) = []"
    by (simp add: run_sync)
  have c: "snd (maybe_sync_profile format_plain_fields {} ?q
                  ((qq_event ''hi'')\<lparr>set_qq_profile_raises := True\<rparr>) ''cat'' False)
             = [Set_qq_profile ''cat'' False]"
    by (simp add: run_sync)
  have k: "bot_key_of (qq_event ''hi'') = ''aiocqhttp:10001''"
    by (simp add: bot_key_of_def qq_event_def)
  have u: "AList.update ''aiocqhttp:10001'' ''cat'' (last_synced_persona ?q)
             = [(''aiocqhttp:10001'', ''cat'')]"
    by (simp add: load_config_def new_qq_sync_def)
  show ?thesis
    using maybe_sync_profile_cache_update
            [of format_plain_fields "{}" ?q "qq_event ''hi''" "''cat''" False]
          maybe_sync_profile_cache_update
            [of format_plain_fields "{}" ?q "(qq_event ''hi'')\<lparr>bot_has_set_qq_profile := False\<rparr>"
                "''cat''" False]
          maybe_sync_profile_cache_update
            [of format_plain_fields "{}" ?q "(qq_event ''hi'')\<lparr>set_qq_profile_raises := True\<rparr>"
                "''cat''" False]
    unfolding a b c
    by (simp add: prod_eq_iff a b c k u succeeded_def)
qed

text \<open>
  Claim C4, as stated, fails in its last part: when the nickname call raises, the cache
  is left unchanged, and the second of two consecutive switches to the same persona
  issues the nickname call again, so two rounds of calls are issued.
\<close>

theorem maybe_sync_profile_two_rounds_counterexample:
  "maybe_sync_profile format_plain_fields {} (load_config (new_qq_sync ''avatars'') None)
     ((qq_event ''hi'')\<lparr>set_qq_profile_raises := True\<rparr>) ''cat'' False
     = (load_config (new_qq_sync ''avatars'') None, [Set_qq_profile ''cat'' False])
   \<and> snd (maybe_sync_profile format_plain_fields {}
          (fst (maybe_sync_profile format_plain_fields {}
                 (load_config (new_qq_sync ''avatars'') None)
                 ((qq_event ''hi'')\<lparr>set_qq_profile_raises := True\<rparr>) ''cat'' False))
          ((qq_event ''hi'')\<lparr>set_qq_profile_raises := True\<rparr>) ''cat'' False)
     = [Set_qq_profile ''cat'' False]"
  by (simp add: run_sync)

text \<open>
  Claim C4, amended. For every bot identity and persona id, if \<open>force\<close> is false and the
  cache maps the identity to the persona id, \<open>maybe_sync_profile\<close> does nothing: it makes
  no nickname call and no avatar call and leaves the instance unchanged. So of two
  consecutive switches to the same persona for the same bot identity, the second makes no
  call whenever a call of the first succeeded.
\<close>

theorem maybe_sync_profile_noop_when_cached:
  "(\<not> force \<and> map_of (last_synced_persona q) (bot_key_of ev) = Some pid \<longrightarrow>
      maybe_sync_profile fmt fs q ev pid force = (q, []))
   \<and> (list_ex succeeded (snd (maybe_sync_profile fmt fs q ev pid False)) \<longrightarrow>
      maybe_sync_profile fmt' fs' (fst (maybe_sync_profile fmt fs q ev pid False)) ev pid False
        = (fst (maybe_sync_profile fmt fs q ev pid False), []))"
proof (intro conjI impI)
  assume "\<not> force \<and> map_of (last_synced_persona q) (bot_key_of ev) = Some pid"
  then show "maybe_sync_profile fmt fs q ev pid force = (q, [])"
    by (simp add: sync_noop_if_cached)
next
  let ?q1 = "fst (maybe_sync_profile fmt fs q ev pid False)"
  assume "list_ex succeeded (snd (maybe_sync_profile fmt fs q ev pid False))"
  then have "?q1 = q\<lparr>last_synced_persona := AList.update (bot_key_of ev) pid (last_synced_persona q)\<rparr>"
    using sync_state_after [of fmt fs q ev pid False] by simp
  then have "map_of (last_synced_persona ?q1) (bot_key_of ev) = Some pid"
    by (simp add: update_conv')
  then show "maybe_sync_profile fmt' fs' ?q1 ev pid False = (?q1, [])"
    by (intro sync_noop_if_cached) simp_all
qed

theorem maybe_sync_profile_noop_when_cached_witness:
  "maybe_sync_profile format_plain_fields {}
     ((load_config (new_qq_sync ''avatars'') None)
        \<lparr>last_synced_persona := [(''aiocqhttp:10001'', ''cat'')]\<rparr>)
     (qq_event ''hi'') ''cat'' False
   = ((load_config (new_qq_sync ''avatars'') None)
        \<lparr>last_synced_persona := [(''aiocqhttp:10001'', ''cat'')]\<rparr>, [])
   \<and> snd (maybe_sync_profile format_plain_fields {}
          (fst (maybe_sync_profile format_plain_fields {}
                 (load_config (new_qq_sync ''avatars'') None) (qq_event ''hi'') ''cat'' False))
          (qq_event ''hi'') ''cat'' False) = []"
proof -
  let ?q = "load_config (new_qq_sync ''avatars'') None"
  let ?c = "?q\<lparr>last_synced_persona := [(''aiocqhttp:10001'', ''cat'')]\<rparr>"
  have a: "map_of (last_synced_persona ?c) (bot_key_of (qq_event ''hi'')) = Some ''cat''"
    by (simp add: bot_key_of_def qq_event_def)
  have b: "list_ex succeeded
             (snd (maybe_sync_profile format_plain_fields {} ?q (qq_event ''hi'') ''cat'' False))"
    by (simp add: run_sync)
  show ?thesis
    using maybe_sync_profile_noop_when_cached
            [of False ?c "qq_event ''hi''" "''cat''" format_plain_fields "{}"
                format_plain_fields "{}"]
          maybe_sync_profile_noop_when_cached
            [of False ?q "qq_event ''hi''" "''cat''" format_plain_fields "{}"
                format_plain_fields "{}"] a b
    by simp
qed

section \<open>Switching and the keyword listener\<close>

text \<open>The equations that run a switch on concrete data.\<close>

lemmas run_switch =
  switch_persona_def get_persona_def update_current_conversation_def truthy_announce_def
  new_plugin_def synced_plugin_def yield_result_def

lemma switch_persona_raises:
  "get_persona s pid = Inl exc \<Longrightarrow> switch_persona fmt s ev pid announce = (s, Inl exc)"
  by (simp add: switch_persona_def)

text \<open>
  Claim C9. For every event and persona id, if the lookup of the persona in the store
  fails, \<open>_switch_persona\<close> fails with the store's exception and the state is the one
  before the call: nothing was asked of the conversation manager or of a configuration
  (the recorded calls are unchanged) and no profile sync ran (the cache is unchanged).
  The store fails so when it does not hold the id.
\<close>

theorem switch_persona_unknown_persona:
  "(get_persona s pid = Inl exc \<longrightarrow> switch_persona fmt s ev pid announce = (s, Inl exc))
   \<and> (personas s pid = None \<longrightarrow>
        switch_persona fmt s ev pid announce = (s, Inl (Persona_not_found pid))
        \<and> effects (fst (switch_persona fmt s ev pid announce)) = effects s
        \<and> qq_sync (fst (switch_persona fmt s ev pid announce)) = qq_sync s)"
proof (intro conjI impI)
  assume "get_persona s pid = Inl exc"
  then show "switch_persona fmt s ev pid announce = (s, Inl exc)"
    by (rule switch_persona_raises)
next
  assume "personas s pid = None"
  then have g: "get_persona s pid = Inl (Persona_not_found pid)"
    by (simp add: get_persona_def)
  show "switch_persona fmt s ev pid announce = (s, Inl (Persona_not_found pid))"
    by (rule switch_persona_raises [OF g])
  then show "effects (fst (switch_persona fmt s ev pid announce)) = effects s"
    and "qq_sync (fst (switch_persona fmt s ev pid announce)) = qq_sync s"
    by simp_all
qed

theorem switch_persona_unknown_persona_witness:
  "switch_persona format_plain_fields synced_plugin (qq_event ''hi'') ''ghost'' None
     = (synced_plugin, Inl (Persona_not_found ''ghost''))
   \<and> effects (fst (switch_persona format_plain_fields synced_plugin
                     ((qq_event ''hi'')\<lparr>self_id := ''10002''\<rparr>) ''cat'' None))
     = [New_conversation ''aiocqhttp:GroupMessage:42'' ''cat'',
        Bot_call (Set_qq_profile ''cat'' True)]"
proof -
  have a: "personas synced_plugin ''ghost'' = None"
    by (simp add: synced_plugin_def new_plugin_def)
  have b: "effects (fst (switch_persona format_plain_fields synced_plugin
                     ((qq_event ''hi'')\<lparr>self_id := ''10002''\<rparr>) ''cat'' None))
     = [New_conversation ''aiocqhttp:GroupMessage:42'' ''cat'',
        Bot_call (Set_qq_profile ''cat'' True)]"
    by (simp add: run_switch maybe_sync_profile_def bot_key_of_def format_nickname_def
                  get_avatar_path_def new_qq_sync_def load_config_def qq_event_def)
  show ?thesis
    using switch_persona_unknown_persona
            [of synced_plugin "''ghost''" "Persona_not_found ''ghost''" format_plain_fields
                "qq_event ''hi''" None] a b
    by simp
qed

lemma on_message_loop_skips:
  "\<forall>r \<in> set before. \<not> matches r text \<Longrightarrow>
   on_message_loop fmt s ev text (before @ rest) = on_message_loop fmt s ev text rest"
  by (induction before) simp_all

text \<open>
  Claim C5. For every rule list and message text (with the listener enabled and the text
  not empty): when \<open>m\<close> is the first rule in the order of the list that matches, the
  listener switches to the persona of \<open>m\<close> whatever rules come after it, with the
  announce text chosen in this order: the reply template of \<open>m\<close> formatted with its
  persona id if the template is not empty (an exception of the formatting is raised),
  else the generic switched-to message if the announce flag is set, else none. When no
  rule matches, nothing happens. A rule matches when its keyword occurs in the text,
  both lower-cased unless the rule is case-sensitive.
\<close>

theorem on_message_first_match_wins:
  "(message_str ev \<noteq> [] \<and> keyword_switch_enabled s
      \<and> keyword_mappings s = before @ m # after
      \<and> (\<forall>r \<in> set before. \<not> matches r (message_str ev)) \<and> matches m (message_str ev)
    \<longrightarrow> on_message fmt s ev =
          (if reply_template m \<noteq> [] then
             (case fmt (reply_template m) (persona_id m) of
                None \<Rightarrow> (s, Inl Format_error)
              | Some a \<Rightarrow> yield_result (switch_persona fmt s ev (persona_id m) (Some (Plain a))))
           else if auto_switch_announce s then
             yield_result (switch_persona fmt s ev (persona_id m)
                             (Some (Switched_persona_to (persona_id m))))
           else yield_result (switch_persona fmt s ev (persona_id m) None)))
   \<and> ((\<forall>r \<in> set (keyword_mappings s). \<not> matches r (message_str ev))
    \<longrightarrow> on_message fmt s ev = (s, Inr []))
   \<and> matches m text =
       (if case_sensitive m then contains text (keyword m)
        else contains (lower text) (lower (keyword m)))"
proof (intro conjI impI)
  assume h: "message_str ev \<noteq> [] \<and> keyword_switch_enabled s
      \<and> keyword_mappings s = before @ m # after
      \<and> (\<forall>r \<in> set before. \<not> matches r (message_str ev)) \<and> matches m (message_str ev)"
  then have "on_message fmt s ev = on_message_loop fmt s ev (message_str ev) (before @ m # after)"
    by (simp add: on_message_def)
  also have "\<dots> = on_message_loop fmt s ev (message_str ev) (m # after)"
    using h by (intro on_message_loop_skips) simp
  also have "\<dots> =
          (if reply_template m \<noteq> [] then
             (case fmt (reply_template m) (persona_id m) of
                None \<Rightarrow> (s, Inl Format_error)
              | Some a \<Rightarrow> yield_result (switch_persona fmt s ev (persona_id m) (Some (Plain a))))
           else if auto_switch_announce s then
             yield_result (switch_persona fmt s ev (persona_id m)
                             (Some (Switched_persona_to (persona_id m))))
           else yield_result (switch_persona fmt s ev (persona_id m) None))"
    using h by (simp add: announce_for_def split: option.splits)
  finally show "on_message fmt s ev =
          (if reply_template m \<noteq> [] then
             (case fmt (reply_template m) (persona_id m) of
                None \<Rightarrow> (s, Inl Format_error)
              | Some a \<Rightarrow> yield_result (switch_persona fmt s ev (persona_id m) (Some (Plain a))))
           else if auto_switch_announce s then
             yield_result (switch_persona fmt s ev (persona_id m)
                             (Some (Switched_persona_to (persona_id m))))
           else yield_result (switch_persona fmt s ev (persona_id m) None))" .
next
  assume n: "\<forall>r \<in> set (keyword_mappings s). \<not> matches r (message_str ev)"
  have "on_message_loop fmt s ev (message_str ev) (keyword_mappings s @ []) =
        on_message_loop fmt s ev (message_str ev) []"
    using n by (rule on_message_loop_skips)
  then show "on_message fmt s ev = (s, Inr [])"
    by (simp add: on_message_def Let_def)
next
  show "matches m text =
       (if case_sensitive m then contains text (keyword m)
        else contains (lower text) (lower (keyword m)))"
    by (simp add: matches_def)
qed

theorem on_message_first_match_wins_witness:
  "on_message format_plain_fields
     (synced_plugin\<lparr>auto_switch_announce := True, keyword_mappings :=
        [\<lparr>keyword = ''woof'', persona_id = ''dog'', case_sensitive = False, reply_template = []\<rparr>,
         \<lparr>keyword = ''Meow'', persona_id = ''cat'', case_sensitive = False,
          reply_template = ''Now {persona_id}!''\<rparr>,
         \<lparr>keyword = ''me'', persona_id = ''dog'', case_sensitive = True, reply_template = []\<rparr>]\<rparr>)
     (qq_event ''say MEOW to me'')
   = (synced_plugin\<lparr>auto_switch_announce := True, keyword_mappings :=
        [\<lparr>keyword = ''woof'', persona_id = ''dog'', case_sensitive = False, reply_template = []\<rparr>,
         \<lparr>keyword = ''Meow'', persona_id = ''cat'', case_sensitive = False,
          reply_template = ''Now {persona_id}!''\<rparr>,
         \<lparr>keyword = ''me'', persona_id = ''dog'', case_sensitive = True, reply_template = []\<rparr>],
        effects := [New_conversation ''aiocqhttp:GroupMessage:42'' ''cat'']\<rparr>,
      Inr [Plain ''Now cat!''])"
proof -
  let ?r1 = "\<lparr>keyword = ''woof'', persona_id = ''dog'', case_sensitive = False, reply_template = []\<rparr>"
  let ?r2 = "\<lparr>keyword = ''Meow'', persona_id = ''cat'', case_sensitive = False,
              reply_template = ''Now {persona_id}!''\<rparr>"
  let ?r3 = "\<lparr>keyword = ''me'', persona_id = ''dog'', case_sensitive = True, reply_template = []\<rparr>"
  let ?s = "synced_plugin\<lparr>auto_switch_announce := True, keyword_mappings := [?r1, ?r2, ?r3]\<rparr>"
  let ?ev = "qq_event ''say MEOW to me''"
  have low: "lower ''say MEOW to me'' = ''say meow to me''" "lower ''woof'' = ''woof''"
    "lower ''Meow'' = ''meow''"
    by (simp_all add: lower_def lower_char_def upper_letters_def lower_letters_def)
  have t: "message_str ?ev = ''say MEOW to me''" by (simp add: qq_event_def)
  have h: "message_str ?ev \<noteq> [] \<and> keyword_switch_enabled ?s
      \<and> keyword_mappings ?s = [?r1] @ ?r2 # [?r3]
      \<and> (\<forall>r \<in> set [?r1]. \<not> matches r (message_str ?ev)) \<and> matches ?r2 (message_str ?ev)"
    unfolding t by (simp add: matches_def low synced_plugin_def new_plugin_def)
  have later: "matches ?r3 (message_str ?ev)"
    unfolding t by (simp add: matches_def)
  have f: "format_plain_fields (reply_template ?r2) (persona_id ?r2) = Some ''Now cat!''"
    by simp
  have sw: "yield_result (switch_persona format_plain_fields ?s ?ev ''cat'' (Some (Plain ''Now cat!'')))
      = (?s\<lparr>effects := [New_conversation ''aiocqhttp:GroupMessage:42'' ''cat'']\<rparr>,
         Inr [Plain ''Now cat!''])"
    by (simp add: run_switch maybe_sync_profile_def bot_key_of_def new_qq_sync_def
                  load_config_def qq_event_def)
  show ?thesis
    using on_message_first_match_wins
            [of ?ev ?s "[?r1]" ?r2 "[?r3]" format_plain_fields "''x''"] h f sw later
    by simp
qed

section \<open>The create command\<close>

text \<open>
  Claim C6. When the wait of a create command ends by its time limit, the task sends the
  cancellation message on the event of the command and does nothing else: the persona
  store is as before, and no call of \<open>create_persona\<close> was added to the calls recorded.
  The task is started only after the handler yielded its prompt for the content.
\<close>

theorem create_wait_timeout_cancels:
  "wait_for_create loads s ev pid Timed_out
     = s\<lparr>effects := effects s @ [Sent ev Wait_timed_out_cancelled]\<rparr>
   \<and> personas (wait_for_create loads s ev pid Timed_out) = personas s
   \<and> (\<forall>p prompt dialogs.
        Persona_created p prompt dialogs \<in> set (effects (wait_for_create loads s ev pid Timed_out))
        \<longrightarrow> Persona_created p prompt dialogs \<in> set (effects s))
   \<and> (snd (cmd_create s0 ev pid) \<longrightarrow> fst (cmd_create s0 ev pid) = [Send_content_prompt])"
  by (auto simp: wait_for_create_def send_def cmd_create_def split: sum.splits if_splits)

theorem create_wait_timeout_cancels_witness:
  "cmd_create synced_plugin (qq_event ''/persona_plus create bot_a'') ''bot_a''
     = ([Send_content_prompt], True)
   \<and> wait_for_create json_loads synced_plugin (qq_event ''/persona_plus create bot_a'') ''bot_a''
       Timed_out
     = synced_plugin\<lparr>effects :=
         [Sent (qq_event ''/persona_plus create bot_a'') Wait_timed_out_cancelled]\<rparr>
   \<and> personas (wait_for_create json_loads synced_plugin
        (qq_event ''/persona_plus create bot_a'') ''bot_a'' Timed_out) ''bot_a'' = None"
proof -
  let ?ev = "qq_event ''/persona_plus create bot_a''"
  have c: "cmd_create synced_plugin ?ev ''bot_a'' = ([Send_content_prompt], True)"
    by (simp add: cmd_create_def has_permission_def get_persona_def synced_plugin_def
                  new_plugin_def)
  have e: "effects synced_plugin = []" "personas synced_plugin ''bot_a'' = None"
    by (simp_all add: synced_plugin_def new_plugin_def)
  show ?thesis
    using create_wait_timeout_cancels [of json_loads synced_plugin ?ev "''bot_a''" synced_plugin] c e
    by simp
qed

section \<open>The delete command and the cache\<close>

text \<open>
  \<open>delete_avatar\<close> purges the cache: after it, no bot identity is recorded as synced to
  the persona. \<open>cmd_delete\<close> does not call it, and leaves the cache as it was.
\<close>

lemma map_of_fold_delete:
  "map_of (fold AList.delete ks al) k = (if k \<in> set ks then None else map_of al k)"
  by (induction ks arbitrary: al) (simp_all add: delete_conv')

lemma reset_persona_cache_purges:
  "map_of (last_synced_persona (reset_persona_cache q pid)) k =
     (if map_of (last_synced_persona q) k = Some pid then None
      else if (k, pid) \<in> set (last_synced_persona q) then None
      else map_of (last_synced_persona q) k)"
proof -
  have "map_of (last_synced_persona q) k = Some pid \<Longrightarrow> (k, pid) \<in> set (last_synced_persona q)"
    by (rule map_of_SomeD)
  then show ?thesis
    by (auto simp: reset_persona_cache_def map_of_fold_delete image_iff)
qed

lemma delete_avatar_purges:
  "map_of (last_synced_persona (qq_sync (delete_avatar s pid))) k \<noteq> Some pid"
  by (auto simp: delete_avatar_def Let_def reset_persona_cache_purges split: if_splits)

lemma cmd_delete_keeps_cache:
  "qq_sync (fst (cmd_delete s ev pid)) = qq_sync s"
  by (auto simp: cmd_delete_def delete_persona_def split: option.splits)

text \<open>
  Claim C2 fails on the code. In a plugin whose cache records the bot \<open>10001\<close> as synced
  to \<open>cat\<close>, the delete command succeeds for \<open>cat\<close> and the cache entry is still there;
  after \<open>cat\<close> is created again, a switch to it makes no call of the bot's profile
  interface. \<open>delete_avatar\<close>, from the same state, leaves the cache empty.
\<close>

theorem cmd_delete_leaves_cache_entry:
  "cmd_delete synced_plugin (qq_event ''/persona_plus delete cat'') ''cat''
     = (synced_plugin\<lparr>personas := Map.empty, effects := [Persona_removed ''cat'']\<rparr>,
        [Persona_deleted ''cat''])
   \<and> last_synced_persona (qq_sync (fst (cmd_delete synced_plugin
        (qq_event ''/persona_plus delete cat'') ''cat''))) = [(''aiocqhttp:10001'', ''cat'')]
   \<and> effects (fst (switch_persona format_plain_fields
        (fst (create_persona
               (fst (cmd_delete synced_plugin (qq_event ''/persona_plus delete cat'') ''cat''))
               ''cat'' ''You are a new cat.'' None None))
        (qq_event ''hi'') ''cat'' None))
     = [Persona_removed ''cat'', Persona_created ''cat'' ''You are a new cat.'' None,
        New_conversation ''aiocqhttp:GroupMessage:42'' ''cat'']
   \<and> last_synced_persona (qq_sync (delete_avatar synced_plugin ''cat'')) = []"
proof -
  let ?ev = "qq_event ''/persona_plus delete cat''"
  have d: "cmd_delete synced_plugin ?ev ''cat''
     = (synced_plugin\<lparr>personas := Map.empty, effects := [Persona_removed ''cat'']\<rparr>,
        [Persona_deleted ''cat''])"
    by (simp add: cmd_delete_def has_permission_def has_manage_permission_def delete_persona_def
                  synced_plugin_def new_plugin_def qq_event_def)
  have c: "last_synced_persona (qq_sync (synced_plugin\<lparr>personas := Map.empty,
             effects := [Persona_removed ''cat'']\<rparr>)) = [(''aiocqhttp:10001'', ''cat'')]"
    by (simp add: synced_plugin_def)
  have s: "effects (fst (switch_persona format_plain_fields
        (fst (create_persona
               (synced_plugin\<lparr>personas := Map.empty, effects := [Persona_removed ''cat'']\<rparr>)
               ''cat'' ''You are a new cat.'' None None))
        (qq_event ''hi'') ''cat'' None))
     = [Persona_removed ''cat'', Persona_created ''cat'' ''You are a new cat.'' None,
        New_conversation ''aiocqhttp:GroupMessage:42'' ''cat'']"
    by (simp add: create_persona_def run_switch maybe_sync_profile_def bot_key_of_def
                  new_qq_sync_def load_config_def qq_event_def)
  have a: "last_synced_persona (qq_sync (delete_avatar synced_plugin ''cat'')) = []"
    by (simp add: delete_avatar_def reset_persona_cache_def get_avatar_path_def
                  synced_plugin_def new_plugin_def load_config_def new_qq_sync_def)
  show ?thesis unfolding d using c s a by simp
qed

end
